theory Spec2Isabelle
  imports Complex_Main "HOL-Library.AList"
begin

section \<open>Text categorization datasets: preprocessing/utils.py\<close>

text \<open>
  A shallow embedding of \<^verbatim>\<open>BaseTextCategorizationDataset\<close>,
  \<^verbatim>\<open>LocalTextCategorizationDataset\<close> and \<^verbatim>\<open>_SimpleSequence\<close>.
  Python's unbounded integers are \<^typ>\<open>int\<close>. A Python float is the real number the
  double denotes. The product \<^verbatim>\<open>num_samples * train_ratio\<close> is the IEEE double
  product: the exact product rounded to the nearest double, ties to the even
  significand. Every exception the code can raise is a value of \<open>error\<close>.
\<close>

datatype error = AssertionError | ZeroDivisionError | KeyError | ValueError

subsection \<open>Sample and batch arithmetic\<close>

definition integer_floor :: "real \<Rightarrow> int" where
  "integer_floor float_value = \<lfloor>float_value\<rfloor>"

text \<open>
  Rounding to a double. A nonzero \<open>x\<close> with \<open>2 ^ e \<le> \<bar>x\<bar> < 2 ^ (e + 1)\<close> has a
  significand of 53 bits, so the doubles around it are the multiples of \<open>2 ^ (e - 52)\<close>
  (of \<open>2 ^ - 1074\<close> in the subnormal range), and \<open>x\<close> is rounded to the nearest of them,
  a tie going to the even multiple. A value of magnitude \<open>2 ^ 53\<close> or more, which a
  ratio between \<open>-1\<close> and 1 gives only from \<open>2 ^ 53\<close> samples on, is taken as it is,
  and overflow to infinity is not modelled. Integers below \<open>2 ^ 53\<close> are doubles, so
  the conversion of an integer operand is exact.
\<close>

definition round_half_even :: "real \<Rightarrow> int" where
  "round_half_even y =
     (let f = \<lfloor>y\<rfloor> in
      if y - of_int f < 1/2 then f
      else if 1/2 < y - of_int f then f + 1
      else if even f then f else f + 1)"

definition float_exponent :: "real \<Rightarrow> int" where
  "float_exponent x = max \<lfloor>log 2 \<bar>x\<bar>\<rfloor> (- 1022)"

definition round_double :: "real \<Rightarrow> real" where
  "round_double x =
     (if x = 0 \<or> 2 ^ 53 \<le> \<bar>x\<bar> then x
      else of_int (round_half_even (x * 2 ^ nat (52 - float_exponent x)))
             / 2 ^ nat (52 - float_exponent x))"

definition float_mul :: "real \<Rightarrow> real \<Rightarrow> real" where
  "float_mul x y = round_double (x * y)"

text \<open>The double that the literal \<^verbatim>\<open>0.7\<close> denotes, \<^verbatim>\<open>0x1.6666666666666p-1\<close>.\<close>

definition double_0_7 :: real where
  "double_0_7 = 6305039478318694 / 2 ^ 53"

text \<open>
  The methods of the base class read \<^verbatim>\<open>self._get_num_samples()\<close>,
  \<^verbatim>\<open>self.train_ratio\<close> and \<^verbatim>\<open>self.batch_size\<close>; here they are arguments.
  The true division by \<^verbatim>\<open>batch_size\<close> raises when the batch size is zero; its
  quotient of two integers is taken exact, which has the floor of the double quotient
  for every numerator below \<open>2 ^ 53\<close>.
\<close>

definition get_num_train_samples :: "int \<Rightarrow> real \<Rightarrow> int" where
  "get_num_train_samples num_samples ratio = integer_floor (float_mul (of_int num_samples) ratio)"

definition get_num_test_samples :: "int \<Rightarrow> real \<Rightarrow> int" where
  "get_num_test_samples num_samples ratio =
     integer_floor (of_int (num_samples - get_num_train_samples num_samples ratio))"

definition true_div :: "int \<Rightarrow> int \<Rightarrow> error + real" where
  "true_div a b = (if b = 0 then Inl ZeroDivisionError else Inr (of_int a / of_int b))"

definition get_num_train_batches :: "int \<Rightarrow> real \<Rightarrow> int \<Rightarrow> error + int" where
  "get_num_train_batches num_samples ratio bsize =
     (case true_div (get_num_train_samples num_samples ratio) bsize of
        Inl e \<Rightarrow> Inl e
      | Inr q \<Rightarrow> Inr (integer_floor q))"

definition get_num_test_batches :: "int \<Rightarrow> real \<Rightarrow> int \<Rightarrow> error + int" where
  "get_num_test_batches num_samples ratio bsize =
     (case true_div (get_num_test_samples num_samples ratio) bsize of
        Inl e \<Rightarrow> Inl e
      | Inr q \<Rightarrow> Inr (integer_floor q))"

subsection \<open>Label vocabulary\<close>

text \<open>
  A Python dict keeps insertion order and a later item with an existing key overwrites
  the value in place: this is \<open>AList.update\<close> on an association list. A dict
  comprehension inserts its items from left to right.
\<close>

definition dict_of_items :: "('k \<times> 'v) list \<Rightarrow> ('k \<times> 'v) list" where
  "dict_of_items kvs = foldl (\<lambda>d (k, v). AList.update k v d) [] kvs"

text \<open>
  \<^verbatim>\<open>_get_label_list\<close> is abstract in the base class: the label list is an argument.
  A label is any value that can be a dict key: a string in the tests, a cell of the
  \<^verbatim>\<open>tag_name\<close> column in the file-backed dataset.
\<close>

definition get_index_to_label_map :: "'l list \<Rightarrow> (nat \<times> 'l) list" where
  "get_index_to_label_map labels = dict_of_items (enumerate 0 labels)"

definition get_label_to_index_map :: "'l list \<Rightarrow> ('l \<times> nat) list" where
  "get_label_to_index_map labels =
     dict_of_items (map (\<lambda>(index, label). (label, index)) (get_index_to_label_map labels))"

text \<open>Subscripting a dict with an absent key raises \<^verbatim>\<open>KeyError\<close>.\<close>

definition dict_get :: "('k \<times> 'v) list \<Rightarrow> 'k \<Rightarrow> error + 'v" where
  "dict_get d k = (case map_of d k of None \<Rightarrow> Inl KeyError | Some v \<Rightarrow> Inr v)"

fun lookup_each :: "('k \<times> 'v) list \<Rightarrow> 'k list \<Rightarrow> error + 'v list" where
  "lookup_each d [] = Inr []"
| "lookup_each d (k # ks) =
     (case dict_get d k of
        Inl e \<Rightarrow> Inl e
      | Inr v \<Rightarrow> (case lookup_each d ks of Inl e \<Rightarrow> Inl e | Inr vs \<Rightarrow> Inr (v # vs)))"

definition to_indexes :: "'l list \<Rightarrow> 'l list \<Rightarrow> error + nat list" where
  "to_indexes label_list labels = lookup_each (get_label_to_index_map label_list) labels"

subsection \<open>The sequence wrapper\<close>

text \<open>
  \<^verbatim>\<open>_SimpleSequence\<close> holds two bound methods of a dataset. A bound method that
  mutates its object is a function from the object's state to a result and the new
  state.
\<close>

record ('s, 'b) simple_sequence =
  get_batch_method :: "'s \<Rightarrow> error + ('b \<times> 's)"
  num_batches_method :: "'s \<Rightarrow> error + int"

definition seq_len :: "('s, 'b) simple_sequence \<Rightarrow> 's \<Rightarrow> error + int" where
  "seq_len sq s = num_batches_method sq s"

definition seq_getitem :: "('s, 'b) simple_sequence \<Rightarrow> int \<Rightarrow> 's \<Rightarrow> error + ('b \<times> 's)" where
  "seq_getitem sq idx s = get_batch_method sq s"

subsection \<open>Loading and filtering the file\<close>

text \<open>
  A data frame has its column names and its rows; a row holds the cells of the five
  columns the code reads. The frame \<^verbatim>\<open>pd.read_csv\<close> returns for a file name is a
  parameter \<open>read_csv\<close>. A \<^verbatim>\<open>tag_name\<close> cell is a string or missing (\<open>None\<close>):
  \<^verbatim>\<open>read_csv\<close> reads an empty cell and cell texts such as \<^verbatim>\<open>null\<close>, \<^verbatim>\<open>NA\<close> or
  \<^verbatim>\<open>nan\<close> as the missing value NaN. A \<^verbatim>\<open>tag_position\<close> that is missing or not a
  number compares unequal to 0, as every nonzero integer does.
\<close>

record row =
  post_id :: string
  tag_name :: "string option"
  tag_id :: int
  tag_position :: int
  title :: string

record dataframe =
  columns :: "string list"
  rows :: "row list"

definition expected_columns :: "string list" where
  "expected_columns = [''post_id'', ''tag_name'', ''tag_id'', ''tag_position'', ''title'']"

definition filter_tag_position :: "int \<Rightarrow> dataframe \<Rightarrow> dataframe" where
  "filter_tag_position position df = df\<lparr>rows := filter (\<lambda>r. tag_position r = position) (rows df)\<rparr>"

text \<open>The distinct values of a column in first-seen order (\<^verbatim>\<open>Series.unique\<close>).\<close>

fun unique :: "'a list \<Rightarrow> 'a list" where
  "unique [] = []"
| "unique (x # xs) = x # unique (filter (\<lambda>y. y \<noteq> x) xs)"

text \<open>
  \<^verbatim>\<open>value_counts\<close> drops the missing values and maps each distinct value that is
  left to its number of occurrences; the code reads only which values have a count of
  at least \<open>x\<close>, so the order of the entries is left as first-seen. \<^verbatim>\<open>isin\<close> is
  false on a missing cell, since no missing value is among the counted ones.
\<close>

fun dropna :: "'a option list \<Rightarrow> 'a list" where
  "dropna [] = []"
| "dropna (None # xs) = dropna xs"
| "dropna (Some x # xs) = x # dropna xs"

definition value_counts :: "'a option list \<Rightarrow> ('a \<times> nat) list" where
  "value_counts xs = map (\<lambda>v. (v, count_list xs (Some v))) (unique (dropna xs))"

definition isin :: "'a option \<Rightarrow> 'a list \<Rightarrow> bool" where
  "isin cell vs = (case cell of None \<Rightarrow> False | Some v \<Rightarrow> v \<in> set vs)"

definition filter_tags_with_less_than_x_samples :: "int \<Rightarrow> dataframe \<Rightarrow> dataframe" where
  "filter_tags_with_less_than_x_samples x df =
     (let tag_counts = value_counts (map tag_name (rows df));
          kept = map fst (filter (\<lambda>(tag, c). x \<le> int c) tag_counts)
      in df\<lparr>rows := filter (\<lambda>r. isin (tag_name r) kept) (rows df)\<rparr>)"

text \<open>
  The two filters as the specification words them, on the rows of the file: keep the
  rows at position 0, then among those the rows whose \<open>tag_name\<close> cell occurs at least
  \<open>x\<close> times among them.
\<close>

definition two_filters_as_stated :: "int \<Rightarrow> row list \<Rightarrow> row list" where
  "two_filters_as_stated x rs =
     (let kept0 = filter (\<lambda>r. tag_position r = 0) rs
      in filter (\<lambda>r. x \<le> int (count_list (map tag_name kept0) (tag_name r))) kept0)"

definition load_dataset :: "(string \<Rightarrow> dataframe) \<Rightarrow> string \<Rightarrow> int \<Rightarrow> error + dataframe" where
  "load_dataset read_csv fname min_samples_per_label =
     (let df = read_csv fname in
      if \<not> list_all (\<lambda>col. col \<in> set (columns df)) expected_columns then Inl AssertionError
      else Inr (filter_tags_with_less_than_x_samples min_samples_per_label
                  (filter_tag_position 0 df)))"

subsection \<open>The file-backed dataset\<close>

text \<open>
  \<^verbatim>\<open>to_categorical\<close> turns each index into a one-hot row of the given length.
  \<^verbatim>\<open>train_test_split\<close> shuffles at random and may refuse its input: it is a
  parameter that takes the titles, the one-hot labels and the train size, and returns
  \<open>None\<close> where the library raises.
\<close>

definition to_categorical :: "nat list \<Rightarrow> nat \<Rightarrow> real list list" where
  "to_categorical y num_classes = map (\<lambda>i. map (\<lambda>j. if j = i then 1 else 0) [0..<num_classes]) y"

type_synonym split_result = "string list \<times> string list \<times> real list list \<times> real list list"

type_synonym splitter = "string list \<Rightarrow> real list list \<Rightarrow> int \<Rightarrow> split_result option"

record 'a local_dataset =
  train_ratio :: real
  batch_size :: int
  filename :: string
  preprocess_text :: "string list \<Rightarrow> 'a"
  dataset :: dataframe
  label_list :: "string option list"
  x_train :: "string list"
  x_test :: "string list"
  y_train :: "real list list"
  y_test :: "real list list"
  train_batch_index :: int
  test_batch_index :: int

definition base_init :: "int \<Rightarrow> real \<Rightarrow> error + (real \<times> int)" where
  "base_init bsize ratio = (if ratio < 1 then Inr (ratio, bsize) else Inl AssertionError)"

definition init ::
  "(string \<Rightarrow> dataframe) \<Rightarrow> splitter \<Rightarrow> string \<Rightarrow> int \<Rightarrow> real \<Rightarrow> int \<Rightarrow> (string list \<Rightarrow> 'a)
     \<Rightarrow> error + 'a local_dataset" where
  "init read_csv train_test_split fname bsize ratio min_samples_per_label pp =
     (case base_init bsize ratio of Inl e \<Rightarrow> Inl e | Inr (tr, bs) \<Rightarrow>
      case load_dataset read_csv fname min_samples_per_label of Inl e \<Rightarrow> Inl e | Inr ds \<Rightarrow>
      let n = int (length (rows ds)) in
      case get_num_train_batches n tr bs of Inl e \<Rightarrow> Inl e | Inr ntrain \<Rightarrow>
      if \<not> ntrain > 0 then Inl AssertionError else
      case get_num_test_batches n tr bs of Inl e \<Rightarrow> Inl e | Inr ntest \<Rightarrow>
      if \<not> ntest > 0 then Inl AssertionError else
      let labels = unique (map tag_name (rows ds)) in
      case to_indexes labels (map tag_name (rows ds)) of Inl e \<Rightarrow> Inl e | Inr y \<Rightarrow>
      let y = to_categorical y (length labels) in
      case train_test_split (map title (rows ds)) y (get_num_train_samples n tr) of
        None \<Rightarrow> Inl ValueError
      | Some (xtr, xte, ytr, yte) \<Rightarrow>
          Inr \<lparr>train_ratio = tr, batch_size = bs, filename = fname, preprocess_text = pp,
               dataset = ds, label_list = labels,
               x_train = xtr, x_test = xte, y_train = ytr, y_test = yte,
               train_batch_index = 0, test_batch_index = 0\<rparr>)"

definition get_num_samples :: "'a local_dataset \<Rightarrow> int" where
  "get_num_samples d = int (length (rows (dataset d)))"



definition num_train_batches :: "'a local_dataset \<Rightarrow> error + int" where
  "num_train_batches d = get_num_train_batches (get_num_samples d) (train_ratio d) (batch_size d)"

definition num_test_batches :: "'a local_dataset \<Rightarrow> error + int" where
  "num_test_batches d = get_num_test_batches (get_num_samples d) (train_ratio d) (batch_size d)"

text \<open>
  A slice \<^verbatim>\<open>xs[start:stop]\<close>: a negative bound counts from the end, and both bounds
  are clipped to the sequence, so a slice never raises.
\<close>

definition py_slice :: "'a list \<Rightarrow> int \<Rightarrow> int \<Rightarrow> 'a list" where
  "py_slice xs start stop =
     (let n = int (length xs);
          lo = (if start < 0 then max (start + n) 0 else min start n);
          hi = (if stop < 0 then max (stop + n) 0 else min stop n)
      in drop (nat lo) (take (nat hi) xs))"

text \<open>The modulo raises when the batch count is zero.\<close>

definition py_mod :: "int \<Rightarrow> int \<Rightarrow> error + int" where
  "py_mod a b = (if b = 0 then Inl ZeroDivisionError else Inr (a mod b))"

definition get_train_batch :: "'a local_dataset \<Rightarrow> error + (('a \<times> real list list) \<times> 'a local_dataset)" where
  "get_train_batch d =
     (let i = train_batch_index d;
          start_idx = i * batch_size d;
          end_idx = (i + 1) * batch_size d;
          next_x = preprocess_text d (py_slice (x_train d) start_idx end_idx);
          next_y = py_slice (y_train d) start_idx end_idx
      in case num_train_batches d of Inl e \<Rightarrow> Inl e | Inr nb \<Rightarrow>
         case py_mod (train_batch_index d + 1) nb of Inl e \<Rightarrow> Inl e | Inr i' \<Rightarrow>
         Inr ((next_x, next_y), d\<lparr>train_batch_index := i'\<rparr>))"

definition get_test_batch :: "'a local_dataset \<Rightarrow> error + (('a \<times> real list list) \<times> 'a local_dataset)" where
  "get_test_batch d =
     (let i = test_batch_index d;
          start_idx = i * batch_size d;
          end_idx = (i + 1) * batch_size d;
          next_x = preprocess_text d (py_slice (x_test d) start_idx end_idx);
          next_y = py_slice (y_test d) start_idx end_idx
      in case num_test_batches d of Inl e \<Rightarrow> Inl e | Inr nb \<Rightarrow>
         case py_mod (test_batch_index d + 1) nb of Inl e \<Rightarrow> Inl e | Inr i' \<Rightarrow>
         Inr ((next_x, next_y), d\<lparr>test_batch_index := i'\<rparr>))"

definition get_train_sequence ::
  "('a local_dataset, 'a \<times> real list list) simple_sequence" where
  "get_train_sequence =
     \<lparr>get_batch_method = get_train_batch, num_batches_method = num_train_batches\<rparr>"

definition get_test_sequence ::
  "('a local_dataset, 'a \<times> real list list) simple_sequence" where
  "get_test_sequence =
     \<lparr>get_batch_method = get_test_batch, num_batches_method = num_test_batches\<rparr>"

text \<open>A caller that retrieves \<open>k\<close> train batches in a row, stopping at the first error.\<close>

fun repeat_train_batch ::
  "nat \<Rightarrow> 'a local_dataset \<Rightarrow> error + (('a \<times> real list list) list \<times> 'a local_dataset)" where
  "repeat_train_batch 0 d = Inr ([], d)"
| "repeat_train_batch (Suc k) d =
     (case get_train_batch d of
        Inl e \<Rightarrow> Inl e
      | Inr (b, d') \<Rightarrow>
          (case repeat_train_batch k d' of
             Inl e \<Rightarrow> Inl e
           | Inr (bs, d'') \<Rightarrow> Inr (b # bs, d'')))"

subsection \<open>Test fixtures and batch positions\<close>

text \<open>
  The tests replace \<^verbatim>\<open>pd.read_csv\<close> by a mock that returns a fixed frame for any file
  name; the default \<^verbatim>\<open>preprocess_text\<close> is the identity.
\<close>

fun mock_read_csv :: "dataframe \<Rightarrow> string \<Rightarrow> dataframe" where
  "mock_read_csv df fname = df"

fun default_preprocess_text :: "string list \<Rightarrow> string list" where
  "default_preprocess_text x = x"

text \<open>
  Frames the properties are evaluated on: the two-row and the six-row frame of the
  tests, a four-row frame in which a tag occurs twice but only once at position 0, and
  a three-row frame in which two \<^verbatim>\<open>tag_name\<close> cells are missing.
\<close>

definition null_tag_fixture :: dataframe where
  "null_tag_fixture =
     \<lparr>columns = [''post_id'', ''tag_name'', ''tag_id'', ''tag_position'', ''title''],
      rows = [\<lparr>post_id = ''p1'', tag_name = None, tag_id = 1, tag_position = 0, title = ''t1''\<rparr>,
              \<lparr>post_id = ''p2'', tag_name = None, tag_id = 1, tag_position = 0, title = ''t2''\<rparr>,
              \<lparr>post_id = ''p3'', tag_name = Some ''python'', tag_id = 2, tag_position = 0,
               title = ''t3''\<rparr>]\<rparr>"

definition four_row_fixture :: dataframe where
  "four_row_fixture =
     \<lparr>columns = [''post_id'', ''tag_name'', ''tag_id'', ''tag_position'', ''title''],
      rows = [\<lparr>post_id = ''p1'', tag_name = Some ''a'', tag_id = 1, tag_position = 0, title = ''t1''\<rparr>,
              \<lparr>post_id = ''p2'', tag_name = Some ''a'', tag_id = 1, tag_position = 1, title = ''t2''\<rparr>,
              \<lparr>post_id = ''p3'', tag_name = Some ''b'', tag_id = 2, tag_position = 0, title = ''t3''\<rparr>,
              \<lparr>post_id = ''p4'', tag_name = Some ''b'', tag_id = 2, tag_position = 0, title = ''t4''\<rparr>]\<rparr>"

definition two_row_fixture :: dataframe where
  "two_row_fixture =
     \<lparr>columns = [''post_id'', ''tag_name'', ''tag_id'', ''tag_position'', ''title''],
      rows = [\<lparr>post_id = ''id_1'', tag_name = Some ''tag_a'', tag_id = 1, tag_position = 0, title = ''title_1''\<rparr>,
              \<lparr>post_id = ''id_2'', tag_name = Some ''tag_b'', tag_id = 2, tag_position = 1, title = ''title_2''\<rparr>]\<rparr>"

text \<open>
  The batch at position \<open>i\<close> of a split: the slice from \<open>i * batch_size\<close> to
  \<open>(i + 1) * batch_size\<close> of the texts, preprocessed, and of the one-hot labels.
\<close>

definition train_batch_at :: "'a local_dataset \<Rightarrow> int \<Rightarrow> 'a \<times> real list list" where
  "train_batch_at d i =
     (preprocess_text d (py_slice (x_train d) (i * batch_size d) ((i + 1) * batch_size d)),
      py_slice (y_train d) (i * batch_size d) ((i + 1) * batch_size d))"

definition test_batch_at :: "'a local_dataset \<Rightarrow> int \<Rightarrow> 'a \<times> real list list" where
  "test_batch_at d i =
     (preprocess_text d (py_slice (x_test d) (i * batch_size d) ((i + 1) * batch_size d)),
      py_slice (y_test d) (i * batch_size d) ((i + 1) * batch_size d))"

text \<open>
  A splitter for the evaluations below: the samples at even positions are the train
  split, the others the test split, and it refuses a train size that is not the number
  of even positions. On the six-row frame with train size 3 each split holds one
  sample of every tag.
\<close>

fun evens :: "'a list \<Rightarrow> 'a list" where
  "evens [] = []"
| "evens [x] = [x]"
| "evens (x # y # xs) = x # evens xs"

definition odds :: "'a list \<Rightarrow> 'a list" where
  "odds xs = evens (tl xs)"

definition alternating_split :: splitter where
  "alternating_split xs ys train_size =
     (if int (length (evens xs)) = train_size
      then Some (evens xs, odds xs, evens ys, odds ys) else None)"

definition six_row_fixture :: dataframe where
  "six_row_fixture =
     \<lparr>columns = [''post_id'', ''tag_name'', ''tag_id'', ''tag_position'', ''title''],
      rows = [\<lparr>post_id = ''id_1'', tag_name = Some ''tag_a'', tag_id = 1, tag_position = 0, title = ''title_1''\<rparr>,
              \<lparr>post_id = ''id_2'', tag_name = Some ''tag_a'', tag_id = 2, tag_position = 0, title = ''title_2''\<rparr>,
              \<lparr>post_id = ''id_3'', tag_name = Some ''tag_b'', tag_id = 3, tag_position = 0, title = ''title_3''\<rparr>,
              \<lparr>post_id = ''id_4'', tag_name = Some ''tag_b'', tag_id = 4, tag_position = 0, title = ''title_4''\<rparr>,
              \<lparr>post_id = ''id_5'', tag_name = Some ''tag_c'', tag_id = 5, tag_position = 0, title = ''title_5''\<rparr>,
              \<lparr>post_id = ''id_6'', tag_name = Some ''tag_c'', tag_id = 6, tag_position = 0, title = ''title_5''\<rparr>]\<rparr>"

text \<open>The dataset the constructor builds from the six-row frame with ratio 1/2.\<close>

definition fixture_dataset :: "int \<Rightarrow> (string list) local_dataset" where
  "fixture_dataset bs =
     \<lparr>train_ratio = 1/2, batch_size = bs, filename = ''fake_path'', preprocess_text = default_preprocess_text,
      dataset = six_row_fixture,
      label_list = [Some ''tag_a'', Some ''tag_b'', Some ''tag_c''],
      x_train = [''title_1'', ''title_3'', ''title_5''],
      x_test = [''title_2'', ''title_4'', ''title_5''],
      y_train = [[1, 0, 0], [0, 1, 0], [0, 0, 1]],
      y_test = [[1, 0, 0], [0, 1, 0], [0, 0, 1]],
      train_batch_index = 0, test_batch_index = 0\<rparr>"


section \<open>Properties\<close>

subsection \<open>Sample counts\<close>

lemma round_half_even_of_int: "round_half_even (of_int m) = m"
  by (simp add: round_half_even_def)

lemma round_half_even_nonneg: "0 \<le> y \<Longrightarrow> 0 \<le> round_half_even y"
  by (auto simp: round_half_even_def Let_def)

lemma round_half_even_le:
  assumes "y \<le> of_int m"
  shows "round_half_even y \<le> m"
proof -
  from assms have f: "\<lfloor>y\<rfloor> \<le> m" by (simp add: floor_le_iff)
  show ?thesis
  proof (cases "y - of_int \<lfloor>y\<rfloor> < 1/2")
    case True
    then show ?thesis using f by (simp add: round_half_even_def)
  next
    case False
    then have "of_int \<lfloor>y\<rfloor> < y" by simp
    with assms have "of_int \<lfloor>y\<rfloor> < (of_int m :: real)" by linarith
    then have "\<lfloor>y\<rfloor> < m" by simp
    then show ?thesis using f by (auto simp: round_half_even_def Let_def)
  qed
qed


lemma round_double_of_int: "round_double (of_int k) = of_int k"
proof -
  have "of_int k * (2::real) ^ s = of_int (k * 2 ^ s)" for s by simp
  then have "round_half_even (of_int k * 2 ^ s) = k * 2 ^ s" for s
    by (simp only: round_half_even_of_int)
  then show ?thesis by (simp add: round_double_def)
qed

lemma round_double_nonneg: "0 \<le> x \<Longrightarrow> 0 \<le> round_double x"
  by (simp add: round_double_def round_half_even_nonneg)

lemma round_double_le_int:
  assumes "x \<le> of_int n"
  shows "round_double x \<le> of_int n"
proof (cases "x = 0 \<or> 2 ^ 53 \<le> \<bar>x\<bar>")
  case True
  then show ?thesis using assms by (simp add: round_double_def)
next
  case False
  let ?s = "nat (52 - float_exponent x)"
  have "x * 2 ^ ?s \<le> of_int n * 2 ^ ?s" using assms by simp
  also have "\<dots> = of_int (n * 2 ^ ?s)" by simp
  finally have "round_half_even (x * 2 ^ ?s) \<le> n * 2 ^ ?s" by (rule round_half_even_le)
  then have "(of_int (round_half_even (x * 2 ^ ?s)) :: real) \<le> of_int (n * 2 ^ ?s)"
    by (simp only: of_int_le_iff)
  then have "of_int (round_half_even (x * 2 ^ ?s)) / 2 ^ ?s \<le> (of_int n :: real)"
    by (simp add: divide_le_eq)
  then show ?thesis using False by (simp add: round_double_def)
qed


lemma float_mul_of_int: "float_mul (of_int a) (of_int b) = of_int (a * b)"
  using round_double_of_int [of "a * b"] by (simp add: float_mul_def)

lemma float_exponent_eq:
  assumes "0 \<le> e" "2 ^ nat e \<le> \<bar>x\<bar>" "\<bar>x\<bar> < 2 ^ nat (e + 1)"
  shows "float_exponent x = e"
proof -
  from assms have pos: "0 < \<bar>x\<bar>" by (smt (verit) zero_less_power)
  have "(2::real) powr (of_int e) = 2 ^ nat e" using assms(1) by (simp add: powr_real_of_int)
  moreover have "(2::real) powr (of_int (e + 1)) = 2 ^ nat (e + 1)"
    using assms(1) by (simp add: powr_add powr_real_of_int nat_add_distrib)
  ultimately have "\<lfloor>log 2 \<bar>x\<bar>\<rfloor> = e"
    using assms pos by (subst floor_log_eq_powr_iff) simp_all
  then show ?thesis using assms(1) by (simp add: float_exponent_def)
qed

lemma round_double_10_0_7: "round_double (10 * double_0_7) = 7"
proof -
  have e: "float_exponent (10 * double_0_7) = 2"
    by (rule float_exponent_eq) (simp_all add: double_0_7_def)
  have y: "10 * double_0_7 * 2 ^ 50 = (15762598695796735::real) / 2"
    by (simp add: double_0_7_def)
  have fl: "\<lfloor>(15762598695796735::real) / 2\<rfloor> = 7881299347898367"
    by (simp add: floor_eq_iff)
  have fr: "(15762598695796735::real) / 2 - of_int 7881299347898367 = 1/2"
    by simp
  have od: "odd (7881299347898367::int)"
    by simp
  have h: "round_half_even ((15762598695796735::real) / 2) = 7881299347898368"
    unfolding round_half_even_def Let_def fl using fr od by simp
  have "round_double (10 * double_0_7)
          = of_int (round_half_even (10 * double_0_7 * 2 ^ 50)) / 2 ^ 50"
    by (simp add: round_double_def e) (simp add: double_0_7_def)
  also have "\<dots> = 7" by (simp only: y h) simp
  finally show ?thesis .
qed

lemma integer_floor_of_int: "integer_floor (of_int k) = k"
  by (simp add: integer_floor_def)

lemma integer_floor_div:
  assumes "b \<noteq> 0"
  shows "integer_floor (of_int a / of_int b) = a div b"
  by (simp add: integer_floor_def floor_divide_of_int_eq)


lemma get_num_train_samples_exact:
  assumes "of_int n * r = of_int k"
  shows "get_num_train_samples n r = k"
  using round_double_of_int [of k]
  by (simp add: get_num_train_samples_def float_mul_def assms integer_floor_def)

lemma get_num_test_samples_eq:
  "get_num_test_samples n r = n - get_num_train_samples n r"
  unfolding get_num_test_samples_def by (rule integer_floor_of_int)



lemma get_num_train_samples_10_0_7: "get_num_train_samples 10 double_0_7 = 7"
  using round_double_10_0_7 by (simp add: get_num_train_samples_def float_mul_def integer_floor_def)


subsection \<open>Batch counts\<close>

text \<open>
  Claim C2. For every number of samples and every batch size greater than zero,
  \<^verbatim>\<open>_get_num_train_batches\<close> returns the floor of the train sample count divided by
  the batch size and \<^verbatim>\<open>_get_num_test_batches\<close> the floor of the test sample count
  divided by the batch size. This is the integer quotient: the counted batches fit in
  the split, and the samples left over are fewer than one batch and are not counted.
\<close>

theorem num_batches_floor:
  assumes "0 < bs"
  shows "get_num_train_batches n r bs
           = Inr \<lfloor>real_of_int (get_num_train_samples n r) / real_of_int bs\<rfloor>
       \<and> get_num_test_batches n r bs
           = Inr \<lfloor>real_of_int (get_num_test_samples n r) / real_of_int bs\<rfloor>
       \<and> get_num_train_batches n r bs = Inr (get_num_train_samples n r div bs)
       \<and> get_num_test_batches n r bs = Inr (get_num_test_samples n r div bs)
       \<and> (get_num_train_samples n r div bs) * bs \<le> get_num_train_samples n r
       \<and> (get_num_test_samples n r div bs) * bs \<le> get_num_test_samples n r
       \<and> get_num_train_samples n r < (get_num_train_samples n r div bs + 1) * bs
       \<and> get_num_test_samples n r < (get_num_test_samples n r div bs + 1) * bs"
proof -
  from assms have nz: "bs \<noteq> 0" by simp
  have a: "get_num_train_batches n r bs
           = Inr \<lfloor>real_of_int (get_num_train_samples n r) / real_of_int bs\<rfloor>"
    using nz by (simp add: get_num_train_batches_def true_div_def integer_floor_def)
  have b: "get_num_test_batches n r bs
           = Inr \<lfloor>real_of_int (get_num_test_samples n r) / real_of_int bs\<rfloor>"
    using nz by (simp add: get_num_test_batches_def true_div_def integer_floor_def)
  have c: "\<lfloor>real_of_int k / real_of_int bs\<rfloor> = k div bs" for k
    by (simp add: floor_divide_of_int_eq)
  have d: "(k div bs) * bs \<le> k" for k
    using assms by (metis mult.commute pos_mod_sign mult_div_mod_eq le_add_same_cancel1)
  have e: "k < (k div bs + 1) * bs" for k
  proof -
    have "k = bs * (k div bs) + k mod bs" by simp
    moreover have "k mod bs < bs" using assms by simp
    ultimately have "k < bs * (k div bs) + bs" by linarith
    then show ?thesis by (simp add: algebra_simps)
  qed
  show ?thesis using a b c d e by simp
qed

theorem num_batches_floor_witness:
  "(0::int) < 20 \<and> get_num_train_batches 100 (8/10) 20 = Inr 4
     \<and> get_num_test_batches 100 (8/10) 20 = Inr 1"
  using num_batches_floor [of 20 100 "8/10"] get_num_train_samples_exact [of 100 "8/10" 80]
  by (simp add: get_num_test_samples_eq)


subsection \<open>Label vocabulary\<close>

lemma foldl_update_map_of:
  "map_of (foldl (\<lambda>d (k, v). AList.update k v d) d0 kvs) = map_of d0 ++ map_of (rev kvs)"
proof (induction kvs arbitrary: d0)
  case Nil
  then show ?case by simp
next
  case (Cons kv kvs)
  obtain k v where kv: "kv = (k, v)" by (cases kv)
  have "map_of (foldl (\<lambda>d (k, v). AList.update k v d) d0 (kv # kvs))
        = map_of (AList.update k v d0) ++ map_of (rev kvs)"
    using Cons.IH [of "AList.update k v d0"] by (simp add: kv)
  also have "\<dots> = map_of d0 ++ map_of (rev (kv # kvs))"
    by (simp add: kv update_conv' map_add_upd_left fun_eq_iff map_add_def split: option.splits)
  finally show ?case .
qed

lemma map_of_dict_of_items: "map_of (dict_of_items kvs) = map_of (rev kvs)"
  by (simp add: dict_of_items_def foldl_update_map_of)

lemma map_of_rev_distinct:
  assumes "distinct (map fst kvs)"
  shows "map_of (rev kvs) = map_of kvs"
  using assms by (intro iffD2 [OF map_of_inject_set]) (simp_all add: rev_map [symmetric])

lemma map_of_enumerate0:
  "map_of (enumerate 0 xs) i = (if i < length xs then Some (xs ! i) else None)"
proof (cases "i < length xs")
  case True
  then have "(i, xs ! i) \<in> set (enumerate 0 xs)" by (simp add: in_set_enumerate_eq)
  then show ?thesis using True by (simp add: distinct_enumerate map_of_eq_Some_iff)
next
  case False
  then have "i \<notin> fst ` set (enumerate 0 xs)" by (auto simp: in_set_enumerate_eq)
  then show ?thesis using False by (simp add: map_of_eq_None_iff)
qed

lemma index_to_label_lookup:
  "map_of (get_index_to_label_map labels) i = (if i < length labels then Some (labels ! i) else None)"
  by (simp add: get_index_to_label_map_def map_of_dict_of_items map_of_rev_distinct map_of_enumerate0)


lemma update_fresh:
  "k \<notin> fst ` set d \<Longrightarrow> AList.update k v d = d @ [(k, v)]"
  by (induction d) auto

lemma foldl_update_distinct:
  "distinct (map fst (d0 @ kvs)) \<Longrightarrow> foldl (\<lambda>d (k, v). AList.update k v d) d0 kvs = d0 @ kvs"
proof (induction kvs arbitrary: d0)
  case Nil
  then show ?case by simp
next
  case (Cons kv kvs)
  obtain k v where kv: "kv = (k, v)" by (cases kv)
  from Cons.prems have fresh: "k \<notin> fst ` set d0" by (auto simp: kv)
  from Cons.prems have "distinct (map fst ((d0 @ [(k, v)]) @ kvs))" by (simp add: kv)
  then have "foldl (\<lambda>d (k, v). AList.update k v d) (d0 @ [(k, v)]) kvs = (d0 @ [(k, v)]) @ kvs"
    by (rule Cons.IH)
  then show ?case by (simp add: kv update_fresh [OF fresh])
qed

lemma dict_of_items_distinct: "distinct (map fst kvs) \<Longrightarrow> dict_of_items kvs = kvs"
  using foldl_update_distinct [of "[]" kvs] by (simp add: dict_of_items_def)

lemma index_to_label_enumerate: "get_index_to_label_map labels = enumerate 0 labels"
  by (simp add: get_index_to_label_map_def dict_of_items_distinct)

lemma label_to_index_Some:
  assumes "map_of (get_label_to_index_map labels) l = Some i"
  shows "i < length labels \<and> labels ! i = l"
proof -
  from assms have "(l, i) \<in> set (rev (map (\<lambda>(index, label). (label, index)) (get_index_to_label_map labels)))"
    unfolding get_label_to_index_map_def map_of_dict_of_items by (rule map_of_SomeD)
  then have "(i, l) \<in> set (enumerate 0 labels)" by (auto simp: index_to_label_enumerate)
  then show ?thesis by (simp add: in_set_enumerate_eq)
qed

lemma label_to_index_dom:
  "dom (map_of (get_label_to_index_map labels)) = set labels"
proof -
  have "map fst (map (\<lambda>(index, label). (label, index)) (enumerate 0 labels)) = labels"
    by (simp add: comp_def case_prod_unfold enumerate_eq_zip)
  then have "set (map fst (map (\<lambda>(index, label). (label, index)) (enumerate 0 labels))) = set labels"
    by (rule arg_cong)
  then have "fst ` set (map (\<lambda>(index, label). (label, index)) (enumerate 0 labels)) = set labels"
    by (simp only: set_map)
  then show ?thesis
    by (simp add: get_label_to_index_map_def map_of_dict_of_items dom_map_of_conv_image_fst
        index_to_label_enumerate)
qed

lemma label_to_index_distinct:
  assumes "distinct labels" and "i < length labels"
  shows "map_of (get_label_to_index_map labels) (labels ! i) = Some i"
proof -
  from assms(2) have "labels ! i \<in> dom (map_of (get_label_to_index_map labels))"
    by (simp add: label_to_index_dom)
  then obtain j where j: "map_of (get_label_to_index_map labels) (labels ! i) = Some j"
    by blast
  from label_to_index_Some [OF j] have "j < length labels" and "labels ! j = labels ! i"
    by simp_all
  with assms have "j = i" by (simp add: nth_eq_iff_index_eq)
  with j show ?thesis by simp
qed

text \<open>
  Claim C6. For every duplicate-free label list the two maps are mutual inverses: every
  label of the vocabulary has an index whose label is that label again, every index
  below the number of labels has a label whose index is that index again, and the
  indices are \<open>0, 1, \<dots>\<close> up to the number of labels, in label-list order.
\<close>

theorem label_maps_inverse:
  assumes "distinct labels"
  shows "(\<forall>l \<in> set labels. \<exists>i. dict_get (get_label_to_index_map labels) l = Inr i
            \<and> dict_get (get_index_to_label_map labels) i = Inr l)
       \<and> (\<forall>i < length labels. \<exists>l. dict_get (get_index_to_label_map labels) i = Inr l
            \<and> dict_get (get_label_to_index_map labels) l = Inr i)
       \<and> map fst (get_index_to_label_map labels) = [0..<length labels]
       \<and> map snd (get_index_to_label_map labels) = labels
       \<and> map fst (get_label_to_index_map labels) = labels
       \<and> map snd (get_label_to_index_map labels) = [0..<length labels]"
proof -
  have a: "\<exists>i. dict_get (get_label_to_index_map labels) l = Inr i
            \<and> dict_get (get_index_to_label_map labels) i = Inr l" if "l \<in> set labels" for l
  proof -
    from that obtain i where "i < length labels" "labels ! i = l"
      by (auto simp: in_set_conv_nth)
    then show ?thesis
      using label_to_index_distinct [OF assms, of i]
      by (auto simp: dict_get_def index_to_label_lookup)
  qed
  have b: "\<exists>l. dict_get (get_index_to_label_map labels) i = Inr l
            \<and> dict_get (get_label_to_index_map labels) l = Inr i" if "i < length labels" for i
    using that label_to_index_distinct [OF assms, of i]
    by (auto simp: dict_get_def index_to_label_lookup)
  have c: "map fst (get_index_to_label_map labels) = [0..<length labels]"
    by (simp add: index_to_label_enumerate)
  have d: "map snd (get_index_to_label_map labels) = labels"
    by (simp add: index_to_label_enumerate)
  have sw: "distinct (map fst (map (\<lambda>(index, label). (label, index)) (enumerate 0 labels)))"
    using assms by (simp add: comp_def case_prod_unfold enumerate_eq_zip)
  have e: "get_label_to_index_map labels = map (\<lambda>(index, label). (label, index)) (enumerate 0 labels)"
    by (simp add: get_label_to_index_map_def index_to_label_enumerate dict_of_items_distinct [OF sw])
  have f: "map fst (get_label_to_index_map labels) = labels"
    by (simp add: e comp_def case_prod_unfold enumerate_eq_zip)
  have g: "map snd (get_label_to_index_map labels) = [0..<length labels]"
    by (simp add: e comp_def case_prod_unfold enumerate_eq_zip)
  from a b c d f g show ?thesis by blast
qed

theorem label_maps_inverse_witness:
  "distinct [''label_a'', ''label_b'']
   \<and> get_index_to_label_map [''label_a'', ''label_b''] = [(0, ''label_a''), (1, ''label_b'')]
   \<and> get_label_to_index_map [''label_a'', ''label_b''] = [(''label_a'', 0), (''label_b'', 1)]
   \<and> dict_get (get_label_to_index_map [''label_a'', ''label_b'']) ''label_b'' = Inr 1
   \<and> dict_get (get_index_to_label_map [''label_a'', ''label_b'']) 1 = Inr ''label_b''"
  using label_maps_inverse [of "[''label_a'', ''label_b'']"]
  by (simp add: get_index_to_label_map_def get_label_to_index_map_def dict_of_items_def dict_get_def)


lemma lookup_each_eq:
  "lookup_each d ks =
     (if set ks \<subseteq> dom (map_of d) then Inr (map (\<lambda>k. the (map_of d k)) ks) else Inl KeyError)"
proof (induction ks)
  case Nil
  then show ?case by simp
next
  case (Cons k ks)
  show ?case
  proof (cases "map_of d k")
    case None
    then have "k \<notin> dom (map_of d)" by (simp add: domIff)
    then show ?thesis using None by (simp add: dict_get_def)
  next
    case (Some v)
    then have "k \<in> dom (map_of d)" by (simp add: domIff)
    then show ?thesis using Some Cons.IH by (simp add: dict_get_def)
  qed
qed

text \<open>
  Claim C7. When every input label is in the vocabulary, \<^verbatim>\<open>to_indexes\<close> returns a
  list as long as its input that holds, at each position, the index of the input label
  at that position. It fails exactly when some input label is absent from the
  vocabulary, and the failure is a \<^verbatim>\<open>KeyError\<close>.
\<close>

theorem to_indexes_spec:
  "(set ls \<subseteq> set vocab \<longrightarrow>
      (\<exists>is. to_indexes vocab ls = Inr is \<and> length is = length ls
         \<and> (\<forall>j < length ls. is ! j < length vocab \<and> vocab ! (is ! j) = ls ! j
               \<and> dict_get (get_label_to_index_map vocab) (ls ! j) = Inr (is ! j))))
   \<and> (to_indexes vocab ls = Inl KeyError \<longleftrightarrow> \<not> set ls \<subseteq> set vocab)
   \<and> ((\<exists>e. to_indexes vocab ls = Inl e) \<longleftrightarrow> \<not> set ls \<subseteq> set vocab)"
proof -
  let ?m = "map_of (get_label_to_index_map vocab)"
  have eq: "to_indexes vocab ls =
      (if set ls \<subseteq> set vocab then Inr (map (\<lambda>k. the (?m k)) ls) else Inl KeyError)"
    by (simp add: to_indexes_def lookup_each_eq label_to_index_dom)
  have a: "\<exists>is. to_indexes vocab ls = Inr is \<and> length is = length ls
         \<and> (\<forall>j < length ls. is ! j < length vocab \<and> vocab ! (is ! j) = ls ! j
               \<and> dict_get (get_label_to_index_map vocab) (ls ! j) = Inr (is ! j))"
    if sub: "set ls \<subseteq> set vocab"
  proof -
    have pt: "(map (\<lambda>k. the (?m k)) ls) ! j < length vocab
          \<and> vocab ! ((map (\<lambda>k. the (?m k)) ls) ! j) = ls ! j
          \<and> dict_get (get_label_to_index_map vocab) (ls ! j) = Inr ((map (\<lambda>k. the (?m k)) ls) ! j)"
      if j: "j < length ls" for j
    proof -
      from j sub have "ls ! j \<in> dom ?m" by (auto simp: label_to_index_dom)
      then obtain i where i: "?m (ls ! j) = Some i" by blast
      from label_to_index_Some [OF i] i j show ?thesis by (simp add: dict_get_def)
    qed
    show ?thesis
    proof (intro exI conjI allI impI)
      show "to_indexes vocab ls = Inr (map (\<lambda>k. the (?m k)) ls)" using sub eq by simp
      show "length (map (\<lambda>k. the (?m k)) ls) = length ls" by simp
    qed (use pt in blast)+
  qed
  have b: "to_indexes vocab ls = Inl KeyError \<longleftrightarrow> \<not> set ls \<subseteq> set vocab"
    by (simp add: eq)
  have c: "(\<exists>e. to_indexes vocab ls = Inl e) \<longleftrightarrow> \<not> set ls \<subseteq> set vocab"
    by (simp add: eq)
  from a b c show ?thesis by blast
qed

theorem to_indexes_spec_witness:
  "set [''label_a'', ''label_b'', ''label_a''] \<subseteq> set [''label_a'', ''label_b'']
   \<and> to_indexes [''label_a'', ''label_b''] [''label_a'', ''label_b'', ''label_a''] = Inr [0, 1, 0]
   \<and> \<not> set [''label_c''] \<subseteq> set [''label_a'', ''label_b'']
   \<and> to_indexes [''label_a'', ''label_b''] [''label_c''] = Inl KeyError"
  using to_indexes_spec [of "[''label_a'', ''label_b'', ''label_a'']" "[''label_a'', ''label_b'']"]
    to_indexes_spec [of "[''label_c'']" "[''label_a'', ''label_b'']"]
  by (simp add: to_indexes_def get_index_to_label_map_def get_label_to_index_map_def
      dict_of_items_def dict_get_def)

subsection \<open>Loading and filtering\<close>

lemma set_unique: "set (unique xs) = set xs"
  by (induction xs rule: unique.induct) auto

lemma set_dropna: "set (dropna xs) = {v. Some v \<in> set xs}"
  by (induction xs rule: dropna.induct) auto

lemma kept_tags:
  "set (map fst (filter (\<lambda>(tag, c). x \<le> int c) (value_counts xs)))
     = {t. Some t \<in> set xs \<and> x \<le> int (count_list xs (Some t))}"
  by (auto simp: value_counts_def set_unique set_dropna image_iff)

lemma filter_tags_rows:
  "rows (filter_tags_with_less_than_x_samples x df)
     = filter (\<lambda>r. tag_name r \<noteq> None
                   \<and> x \<le> int (count_list (map tag_name (rows df)) (tag_name r))) (rows df)"
proof -
  let ?kept = "map fst (filter (\<lambda>(tag, c). x \<le> int c) (value_counts (map tag_name (rows df))))"
  have "filter (\<lambda>r. isin (tag_name r) ?kept) (rows df)
        = filter (\<lambda>r. tag_name r \<noteq> None
                   \<and> x \<le> int (count_list (map tag_name (rows df)) (tag_name r))) (rows df)"
  proof (rule filter_cong [OF refl])
    fix r assume r: "r \<in> set (rows df)"
    show "isin (tag_name r) ?kept
        = (tag_name r \<noteq> None \<and> x \<le> int (count_list (map tag_name (rows df)) (tag_name r)))"
    proof (cases "tag_name r")
      case None
      then show ?thesis by (simp add: isin_def)
    next
      case (Some t)
      with r have "Some t \<in> set (map tag_name (rows df))" by force
      then show ?thesis using Some by (simp add: isin_def kept_tags del: set_map)
    qed
  qed
  then show ?thesis
    by (simp add: filter_tags_with_less_than_x_samples_def Let_def)
qed

lemma filter_tags_columns: "columns (filter_tags_with_less_than_x_samples x df) = columns df"
  by (simp add: filter_tags_with_less_than_x_samples_def Let_def)

lemma load_dataset_ok:
  assumes cols: "set expected_columns \<subseteq> set (columns (read_csv fname))"
  shows "load_dataset read_csv fname m =
        Inr ((read_csv fname)\<lparr>rows :=
          filter (\<lambda>r. tag_name r \<noteq> None \<and> m \<le> int (count_list
                    (map tag_name (filter (\<lambda>r. tag_position r = 0) (rows (read_csv fname))))
                    (tag_name r)))
            (filter (\<lambda>r. tag_position r = 0) (rows (read_csv fname)))\<rparr>)"
proof -
  let ?df = "read_csv fname"
  let ?f = "filter_tags_with_less_than_x_samples m (filter_tag_position 0 ?df)"
  from cols have ok: "list_all (\<lambda>col. col \<in> set (columns ?df)) expected_columns"
    by (auto simp: list_all_iff)
  then have l: "load_dataset read_csv fname m = Inr ?f"
    by (simp add: load_dataset_def Let_def)
  have r: "rows ?f = filter (\<lambda>r. tag_name r \<noteq> None \<and> m \<le> int (count_list
                  (map tag_name (filter (\<lambda>r. tag_position r = 0) (rows ?df))) (tag_name r)))
          (filter (\<lambda>r. tag_position r = 0) (rows ?df))"
    by (simp add: filter_tags_rows filter_tag_position_def)
  have c: "columns ?f = columns ?df"
    by (simp add: filter_tags_columns filter_tag_position_def)
  have m: "dataframe.more ?f = dataframe.more ?df"
    by (simp add: filter_tags_with_less_than_x_samples_def Let_def filter_tag_position_def)
  from r c m have "?f = ?df\<lparr>rows := rows ?f\<rparr>" by simp
  with l r show ?thesis by simp
qed

lemma load_dataset_as_stated:
  assumes cols: "set expected_columns \<subseteq> set (columns (read_csv fname))"
    and present: "\<forall>r \<in> set (rows (read_csv fname)). tag_position r = 0 \<longrightarrow> tag_name r \<noteq> None"
  shows "load_dataset read_csv fname m =
        Inr ((read_csv fname)\<lparr>rows := two_filters_as_stated m (rows (read_csv fname))\<rparr>)"
proof -
  let ?P = "filter (\<lambda>r. tag_position r = 0) (rows (read_csv fname))"
  have "filter (\<lambda>r. tag_name r \<noteq> None \<and> m \<le> int (count_list (map tag_name ?P) (tag_name r))) ?P
      = filter (\<lambda>r. m \<le> int (count_list (map tag_name ?P) (tag_name r))) ?P"
    using present by (intro filter_cong [OF refl]) auto
  then show ?thesis
    by (simp add: load_dataset_ok [of read_csv fname m, OF cols] two_filters_as_stated_def Let_def)
qed

lemma load_two_row_fixture:
  "load_dataset (mock_read_csv two_row_fixture) f 1 =
     Inr (two_row_fixture\<lparr>rows :=
       [\<lparr>post_id = ''id_1'', tag_name = Some ''tag_a'', tag_id = 1, tag_position = 0,
         title = ''title_1''\<rparr>]\<rparr>)"
  using load_dataset_ok [of "mock_read_csv two_row_fixture" f 1]
  by (simp add: two_row_fixture_def expected_columns_def)

text \<open>
  Claim C5, amended. When the expected columns are present, \<^verbatim>\<open>load_dataset\<close> returns
  the frame with these filters applied in sequence: first the rows with
  \<open>tag_position = 0\<close> are kept, then among those the rows whose \<open>tag_name\<close> is not
  missing and occurs at least \<open>min_samples_per_label\<close> times, the occurrences being
  counted in the rows that passed the first filter. On a frame whose rows at position 0
  all have a tag name these are exactly the two filters as stated. In particular the
  two-row frame with positions 0 and 1 and a minimum of 1 yields the single row at
  position 0.
\<close>

theorem load_dataset_filters:
  "(set expected_columns \<subseteq> set (columns (read_csv fname)) \<longrightarrow>
      load_dataset read_csv fname m =
        Inr ((read_csv fname)\<lparr>rows :=
          filter (\<lambda>r. tag_name r \<noteq> None \<and> m \<le> int (count_list
                    (map tag_name (filter (\<lambda>r. tag_position r = 0) (rows (read_csv fname))))
                    (tag_name r)))
            (filter (\<lambda>r. tag_position r = 0) (rows (read_csv fname)))\<rparr>))
   \<and> (set expected_columns \<subseteq> set (columns (read_csv fname))
       \<and> (\<forall>r \<in> set (rows (read_csv fname)). tag_position r = 0 \<longrightarrow> tag_name r \<noteq> None) \<longrightarrow>
      load_dataset read_csv fname m =
        Inr ((read_csv fname)\<lparr>rows := two_filters_as_stated m (rows (read_csv fname))\<rparr>))
   \<and> load_dataset (mock_read_csv two_row_fixture) f 1 =
        Inr (two_row_fixture\<lparr>rows :=
          [\<lparr>post_id = ''id_1'', tag_name = Some ''tag_a'', tag_id = 1, tag_position = 0,
            title = ''title_1''\<rparr>]\<rparr>)"
  using load_dataset_ok [of read_csv fname m] load_dataset_as_stated [of read_csv fname m]
    load_two_row_fixture [of f]
  by blast

theorem load_dataset_filters_witness:
  "set expected_columns \<subseteq> set (columns (mock_read_csv four_row_fixture ''posts.csv''))
   \<and> map tag_name (rows (mock_read_csv four_row_fixture ''posts.csv''))
       = [Some ''a'', Some ''a'', Some ''b'', Some ''b'']
   \<and> load_dataset (mock_read_csv four_row_fixture) ''posts.csv'' 2
     = Inr (four_row_fixture\<lparr>rows :=
        [\<lparr>post_id = ''p3'', tag_name = Some ''b'', tag_id = 2, tag_position = 0, title = ''t3''\<rparr>,
         \<lparr>post_id = ''p4'', tag_name = Some ''b'', tag_id = 2, tag_position = 0, title = ''t4''\<rparr>]\<rparr>)
   \<and> two_filters_as_stated 2 (rows four_row_fixture)
     = [\<lparr>post_id = ''p3'', tag_name = Some ''b'', tag_id = 2, tag_position = 0, title = ''t3''\<rparr>,
        \<lparr>post_id = ''p4'', tag_name = Some ''b'', tag_id = 2, tag_position = 0, title = ''t4''\<rparr>]
   \<and> set expected_columns \<subseteq> set (columns (mock_read_csv null_tag_fixture ''nulltag.csv''))
   \<and> load_dataset (mock_read_csv null_tag_fixture) ''nulltag.csv'' 1
     = Inr (null_tag_fixture\<lparr>rows :=
        [\<lparr>post_id = ''p3'', tag_name = Some ''python'', tag_id = 2, tag_position = 0,
          title = ''t3''\<rparr>]\<rparr>)"
  using load_dataset_filters [of "mock_read_csv four_row_fixture" "''posts.csv''" 2]
    load_dataset_filters [of "mock_read_csv null_tag_fixture" "''nulltag.csv''" 1]
  by (simp add: four_row_fixture_def null_tag_fixture_def expected_columns_def
      two_filters_as_stated_def)

text \<open>
  On the three-row frame, all rows at position 0, two of them with a missing tag name,
  and a minimum of 1: the missing tag name occurs twice among the rows at position 0,
  so the two filters as stated keep all three rows, while \<^verbatim>\<open>load_dataset\<close> returns
  only the row tagged \<^verbatim>\<open>python\<close>.
\<close>

theorem load_dataset_filters_counterexample:
  "load_dataset (mock_read_csv null_tag_fixture) ''nulltag.csv'' 1
     = Inr (null_tag_fixture\<lparr>rows :=
        [\<lparr>post_id = ''p3'', tag_name = Some ''python'', tag_id = 2, tag_position = 0,
          title = ''t3''\<rparr>]\<rparr>)
   \<and> two_filters_as_stated 1 (rows null_tag_fixture) = rows null_tag_fixture
   \<and> length (rows null_tag_fixture) = 3
   \<and> null_tag_fixture\<lparr>rows := two_filters_as_stated 1 (rows null_tag_fixture)\<rparr>
       \<noteq> null_tag_fixture\<lparr>rows :=
        [\<lparr>post_id = ''p3'', tag_name = Some ''python'', tag_id = 2, tag_position = 0,
          title = ''t3''\<rparr>]\<rparr>"
proof -
  have a: "load_dataset (mock_read_csv null_tag_fixture) ''nulltag.csv'' 1
     = Inr (null_tag_fixture\<lparr>rows :=
        [\<lparr>post_id = ''p3'', tag_name = Some ''python'', tag_id = 2, tag_position = 0,
          title = ''t3''\<rparr>]\<rparr>)"
    using load_dataset_ok [of "mock_read_csv null_tag_fixture" "''nulltag.csv''" 1]
    by (simp add: null_tag_fixture_def expected_columns_def)
  have b: "two_filters_as_stated 1 (rows null_tag_fixture) = rows null_tag_fixture"
    by (simp add: two_filters_as_stated_def null_tag_fixture_def)
  have c: "length (rows null_tag_fixture) = 3"
    by (simp add: null_tag_fixture_def)
  have d: "null_tag_fixture\<lparr>rows := two_filters_as_stated 1 (rows null_tag_fixture)\<rparr>
       \<noteq> null_tag_fixture\<lparr>rows :=
        [\<lparr>post_id = ''p3'', tag_name = Some ''python'', tag_id = 2, tag_position = 0,
          title = ''t3''\<rparr>]\<rparr>"
    by (simp add: b) (simp add: null_tag_fixture_def)
  from a b c d show ?thesis by blast
qed

subsection \<open>Batch retrieval\<close>

lemma get_train_batch_eq:
  "get_train_batch d =
     (case num_train_batches d of Inl e \<Rightarrow> Inl e | Inr nb \<Rightarrow>
        if nb = 0 then Inl ZeroDivisionError
        else Inr (train_batch_at d (train_batch_index d),
                  d\<lparr>train_batch_index := (train_batch_index d + 1) mod nb\<rparr>))"
  by (simp add: get_train_batch_def train_batch_at_def py_mod_def Let_def split: sum.splits)

lemma get_test_batch_eq:
  "get_test_batch d =
     (case num_test_batches d of Inl e \<Rightarrow> Inl e | Inr nb \<Rightarrow>
        if nb = 0 then Inl ZeroDivisionError
        else Inr (test_batch_at d (test_batch_index d),
                  d\<lparr>test_batch_index := (test_batch_index d + 1) mod nb\<rparr>))"
  by (simp add: get_test_batch_def test_batch_at_def py_mod_def Let_def split: sum.splits)

lemma num_train_batches_cursor [simp]:
  "num_train_batches (d\<lparr>train_batch_index := i\<rparr>) = num_train_batches d"
  "num_train_batches (d\<lparr>test_batch_index := i\<rparr>) = num_train_batches d"
  by (simp_all add: num_train_batches_def get_num_samples_def)

lemma num_test_batches_cursor [simp]:
  "num_test_batches (d\<lparr>train_batch_index := i\<rparr>) = num_test_batches d"
  "num_test_batches (d\<lparr>test_batch_index := i\<rparr>) = num_test_batches d"
  by (simp_all add: num_test_batches_def get_num_samples_def)

lemma train_batch_at_cursor [simp]:
  "train_batch_at (d\<lparr>train_batch_index := i\<rparr>) j = train_batch_at d j"
  "train_batch_at (d\<lparr>test_batch_index := i\<rparr>) j = train_batch_at d j"
  by (simp_all add: train_batch_at_def)

lemma test_batch_at_cursor [simp]:
  "test_batch_at (d\<lparr>train_batch_index := i\<rparr>) j = test_batch_at d j"
  "test_batch_at (d\<lparr>test_batch_index := i\<rparr>) j = test_batch_at d j"
  by (simp_all add: test_batch_at_def)

lemma repeat_train_batch_cycle:
  assumes "num_train_batches d = Inr N" and "0 < N"
    and "0 \<le> train_batch_index d" and "train_batch_index d < N"
  shows "repeat_train_batch k d =
           Inr (map (\<lambda>j. train_batch_at d ((train_batch_index d + int j) mod N)) [0..<k],
                d\<lparr>train_batch_index := (train_batch_index d + int k) mod N\<rparr>)"
  using assms
proof (induction k arbitrary: d)
  case 0
  then show ?case by simp
next
  case (Suc k)
  let ?i = "train_batch_index d"
  let ?d' = "d\<lparr>train_batch_index := (?i + 1) mod N\<rparr>"
  from Suc.prems have step: "get_train_batch d = Inr (train_batch_at d ?i, ?d')"
    by (simp add: get_train_batch_eq)
  have nb: "num_train_batches ?d' = Inr N" using Suc.prems by simp
  have lo: "0 \<le> train_batch_index ?d'" using Suc.prems by simp
  have hi: "train_batch_index ?d' < N" using Suc.prems by simp
  have ih: "repeat_train_batch k ?d' =
           Inr (map (\<lambda>j. train_batch_at ?d' ((train_batch_index ?d' + int j) mod N)) [0..<k],
                ?d'\<lparr>train_batch_index := (train_batch_index ?d' + int k) mod N\<rparr>)"
    by (rule Suc.IH [OF nb \<open>0 < N\<close> lo hi])
  have idx: "((?i + 1) mod N + int j) mod N = (?i + int (Suc j)) mod N" for j
  proof -
    have "((?i + 1) mod N + int j) mod N = ((?i + 1) + int j) mod N"
      by (rule mod_add_left_eq)
    then show ?thesis by (simp add: add.assoc)
  qed
  have shift: "map (\<lambda>j. train_batch_at d ((?i + int j) mod N)) [0..<Suc k]
        = train_batch_at d ?i # map (\<lambda>j. train_batch_at d (((?i + 1) mod N + int j) mod N)) [0..<k]"
  proof -
    have "[0..<Suc k] = 0 # map Suc [0..<k]" by (simp add: upt_conv_Cons map_Suc_upt del: upt_Suc)
    then show ?thesis using Suc.prems by (simp add: idx comp_def del: upt_Suc)
  qed
  show ?case
    using step ih shift idx [of k] by (simp del: upt_Suc)
qed

lemma load_six_row_fixture:
  "load_dataset (mock_read_csv six_row_fixture) f 1 = Inr six_row_fixture"
  using load_dataset_ok [of "mock_read_csv six_row_fixture" f 1]
  by (simp add: six_row_fixture_def expected_columns_def)

lemma six_row_labels:
  "unique (map tag_name (rows six_row_fixture)) = [Some ''tag_a'', Some ''tag_b'', Some ''tag_c'']"
  by (simp add: six_row_fixture_def)

lemma six_row_indexes:
  "to_indexes [Some ''tag_a'', Some ''tag_b'', Some ''tag_c''] (map tag_name (rows six_row_fixture))
     = Inr [0, 0, 1, 1, 2, 2]"
  by (simp add: six_row_fixture_def to_indexes_def get_label_to_index_map_def
      get_index_to_label_map_def dict_of_items_def dict_get_def)

lemma six_row_onehot:
  "to_categorical [0, 0, Suc 0, Suc 0, 2, 2] (Suc (Suc (Suc 0)))
     = [[1, 0, 0], [1, 0, 0], [0, 1, 0], [0, 1, 0], [0, 0, 1], [0, 0, 1]]"
  by (simp add: to_categorical_def upt_conv_Cons)

lemma six_row_counts:
  "get_num_train_samples 6 (1/2) = 3" "get_num_test_samples 6 (1/2) = 3"
  using get_num_train_samples_exact [of 6 "1/2" 3] by (simp_all add: get_num_test_samples_eq)

lemma six_row_batches:
  "bs \<noteq> 0 \<Longrightarrow> get_num_train_batches 6 (1/2) bs = Inr (3 div bs)"
  "bs \<noteq> 0 \<Longrightarrow> get_num_test_batches 6 (1/2) bs = Inr (3 div bs)"
  using integer_floor_div [of bs 3]
  by (simp_all add: get_num_train_batches_def get_num_test_batches_def true_div_def six_row_counts)

lemma init_fixture:
  assumes "0 < bs" "bs \<le> 3"
  shows "init (mock_read_csv six_row_fixture) alternating_split ''fake_path'' bs (1/2) 1 default_preprocess_text
           = Inr (fixture_dataset bs)"
proof -
  have n: "int (length (rows six_row_fixture)) = 6" by (simp add: six_row_fixture_def)
  have pos: "0 < 3 div bs" using assms by (simp add: pos_imp_zdiv_pos_iff)
  have sp: "alternating_split (map title (rows six_row_fixture))
              [[1, 0, 0], [1, 0, 0], [0, 1, 0], [0, 1, 0], [0, 0, 1], [0, 0, 1]] 3
            = Some ([''title_1'', ''title_3'', ''title_5''], [''title_2'', ''title_4'', ''title_5''],
                    [[1, 0, 0], [0, 1, 0], [0, 0, 1]], [[1, 0, 0], [0, 1, 0], [0, 0, 1]])"
    by (simp add: alternating_split_def odds_def six_row_fixture_def)
  show ?thesis
    using assms pos
    by (simp add: init_def base_init_def load_six_row_fixture n six_row_batches six_row_counts
        six_row_labels six_row_indexes six_row_onehot sp fixture_dataset_def)
qed

lemma init_Inr:
  assumes "init rc tts f bs r m pp = Inr d"
  shows "r < 1" and "load_dataset rc f m = Inr (dataset d)"
    and "train_ratio d = r" and "batch_size d = bs" and "preprocess_text d = pp"
    and "train_batch_index d = 0" and "test_batch_index d = 0"
    and "\<exists>N. num_train_batches d = Inr N \<and> 0 < N"
    and "\<exists>N. num_test_batches d = Inr N \<and> 0 < N"
    and "label_list d = unique (map tag_name (rows (dataset d)))"
  using assms
  by (auto simp: init_def base_init_def Let_def num_train_batches_def num_test_batches_def
      get_num_samples_def split: sum.splits if_splits option.splits prod.splits)

lemma get_num_batches_div:
  assumes "b \<noteq> 0"
  shows "get_num_train_batches n r b = Inr (get_num_train_samples n r div b)"
    and "get_num_test_batches n r b = Inr (get_num_test_samples n r div b)"
  using assms
  by (simp_all add: get_num_train_batches_def get_num_test_batches_def true_div_def
      integer_floor_div)

lemma get_num_batches_zero:
  "get_num_train_batches n r 0 = Inl ZeroDivisionError"
  "get_num_test_batches n r 0 = Inl ZeroDivisionError"
  by (simp_all add: get_num_train_batches_def get_num_test_batches_def true_div_def)

lemma double_0_7_batch_counts:
  "get_num_train_batches 10 double_0_7 4 = Inr 1"
  "get_num_test_batches 10 double_0_7 4 = Inr 0"
  by (simp_all add: get_num_batches_div get_num_test_samples_eq get_num_train_samples_10_0_7)

lemma nth_map_upt0: "i < n \<Longrightarrow> map f [0..<n] ! i = f i"
  by simp


text \<open>
  Claim C3. For every constructed dataset (any preprocessing function, in particular
  the default identity), \<open>N\<close> being its train batch count: \<open>N + 1\<close> calls of
  \<^verbatim>\<open>get_train_batch\<close> all return, and the last call returns the same batch as the
  first. After \<open>k\<close> calls the cursor is \<open>k mod N\<close> and the \<open>j\<close>-th call returned the
  batch at position \<open>j mod N\<close>: the cursor advances by one modulo \<open>N\<close> and wraps to 0.
\<close>

theorem train_batch_wraparound:
  assumes "init rc tts f bs r m pp = Inr d"
  shows "\<exists>N batches d'. num_train_batches d = Inr N \<and> 0 < N
           \<and> repeat_train_batch (nat N + 1) d = Inr (batches, d')
           \<and> length batches = nat N + 1
           \<and> batches ! nat N = batches ! 0
           \<and> (\<forall>k. \<exists>bk dk. repeat_train_batch k d = Inr (bk, dk)
                  \<and> train_batch_index dk = int k mod N
                  \<and> bk = map (\<lambda>j. train_batch_at d (int j mod N)) [0..<k])"
proof -
  from init_Inr(8) [OF assms] obtain N where N: "num_train_batches d = Inr N" "0 < N" by blast
  have i0: "train_batch_index d = 0" by (rule init_Inr(6) [OF assms])
  have rep: "repeat_train_batch k d =
           Inr (map (\<lambda>j. train_batch_at d (int j mod N)) [0..<k], d\<lparr>train_batch_index := int k mod N\<rparr>)" for k
    using repeat_train_batch_cycle [OF N(1) N(2), of k] i0 N(2) by simp
  let ?bs = "map (\<lambda>j. train_batch_at d (int j mod N)) [0..<nat N + 1]"
  have "?bs ! nat N = train_batch_at d (int (nat N) mod N)"
    by (rule nth_map_upt0) simp
  moreover have "?bs ! 0 = train_batch_at d (int 0 mod N)"
    by (rule nth_map_upt0) simp
  moreover have "int (nat N) mod N = int 0 mod N" using N(2) by simp
  ultimately have same: "?bs ! nat N = ?bs ! 0" by simp
  have len: "length ?bs = nat N + 1" by simp
  have all: "\<forall>k. \<exists>bk dk. repeat_train_batch k d = Inr (bk, dk)
                  \<and> train_batch_index dk = int k mod N
                  \<and> bk = map (\<lambda>j. train_batch_at d (int j mod N)) [0..<k]"
    using rep by simp
  from N rep [of "nat N + 1"] len same all show ?thesis by blast
qed

lemma fixture_num_batches:
  "bs \<noteq> 0 \<Longrightarrow> num_train_batches (fixture_dataset bs) = Inr (3 div bs)"
  "bs \<noteq> 0 \<Longrightarrow> num_test_batches (fixture_dataset bs) = Inr (3 div bs)"
  by (simp_all add: num_train_batches_def num_test_batches_def get_num_samples_def
      fixture_dataset_def six_row_fixture_def six_row_batches)

theorem train_batch_wraparound_witness:
  "init (mock_read_csv six_row_fixture) alternating_split ''fake_path'' 1 (1/2) 1 default_preprocess_text
     = Inr (fixture_dataset 1)
   \<and> num_train_batches (fixture_dataset 1) = Inr 3
   \<and> (\<exists>batches d'. repeat_train_batch 4 (fixture_dataset 1) = Inr (batches, d')
         \<and> batches ! 3 = batches ! 0)"
proof -
  have h: "init (mock_read_csv six_row_fixture) alternating_split ''fake_path'' 1 (1/2) 1 default_preprocess_text
     = Inr (fixture_dataset 1)"
    by (rule init_fixture) simp_all
  have n3: "num_train_batches (fixture_dataset 1) = Inr 3"
    using fixture_num_batches(1) [of 1] by simp
  from train_batch_wraparound [OF h] obtain N batches d' where
    w: "num_train_batches (fixture_dataset 1) = Inr N"
       "repeat_train_batch (nat N + 1) (fixture_dataset 1) = Inr (batches, d')"
       "batches ! nat N = batches ! 0"
    by blast
  from w(1) n3 have "N = 3" by simp
  with w(2,3) have "repeat_train_batch 4 (fixture_dataset 1) = Inr (batches, d')
      \<and> batches ! 3 = batches ! 0"
    by (simp add: nat_add_distrib)
  with h n3 show ?thesis by blast
qed

subsection \<open>Construction failures\<close>

lemma to_indexes_not_assertion: "to_indexes vocab ls \<noteq> Inl AssertionError"
  by (simp add: to_indexes_def lookup_each_eq)

lemma load_dataset_cases:
  "load_dataset rc f m = Inl AssertionError \<longleftrightarrow> \<not> set expected_columns \<subseteq> set (columns (rc f))"
  "(\<exists>ds. load_dataset rc f m = Inr ds) \<longleftrightarrow> set expected_columns \<subseteq> set (columns (rc f))"
  "load_dataset rc f m = Inl e \<Longrightarrow> e = AssertionError"
  by (auto simp: load_dataset_def Let_def list_all_iff split: if_splits)

lemma init_assertion_iff:
  "init rc tts f bs r m pp = Inl AssertionError \<longleftrightarrow>
     (1 \<le> r \<or> \<not> set expected_columns \<subseteq> set (columns (rc f))
      \<or> (\<exists>ds k. load_dataset rc f m = Inr ds
            \<and> get_num_train_batches (int (length (rows ds))) r bs = Inr k \<and> k \<le> 0)
      \<or> (\<exists>ds k. load_dataset rc f m = Inr ds
            \<and> get_num_test_batches (int (length (rows ds))) r bs = Inr k \<and> k \<le> 0))"
proof (cases "r < 1")
  case False
  then show ?thesis by (simp add: init_def base_init_def)
next
  case r: True
  show ?thesis
  proof (cases "load_dataset rc f m")
    case (Inl e)
    then have "e = AssertionError" by (rule load_dataset_cases(3))
    with Inl have l: "load_dataset rc f m = Inl AssertionError" by simp
    then have "\<not> set expected_columns \<subseteq> set (columns (rc f))" by (simp add: load_dataset_cases(1))
    with l r show ?thesis by (simp add: init_def base_init_def)
  next
    case (Inr ds)
    then have cols: "set expected_columns \<subseteq> set (columns (rc f))"
      using load_dataset_cases(2) [of rc f m] by blast
    show ?thesis
    proof (cases "bs = 0")
      case True
      with r Inr cols show ?thesis
        by (simp add: init_def base_init_def Let_def get_num_batches_zero)
    next
      case False
      with r Inr cols show ?thesis
        using to_indexes_not_assertion
        by (auto simp: init_def base_init_def Let_def get_num_batches_div
            split: sum.splits option.splits prod.splits)
    qed
  qed
qed

lemma batch_counts_nonneg:
  assumes "0 \<le> r" "r < 1" "0 \<le> n" "0 < b"
  shows "0 \<le> get_num_train_samples n r div b" and "0 \<le> get_num_test_samples n r div b"
proof -
  have "0 \<le> real_of_int n * r" using assms by simp
  then have "0 \<le> round_double (real_of_int n * r)" by (rule round_double_nonneg)
  then have t0: "0 \<le> get_num_train_samples n r"
    by (simp add: get_num_train_samples_def float_mul_def integer_floor_def)
  have "real_of_int n * r \<le> real_of_int n * 1"
    using assms by (intro mult_left_mono) simp_all
  then have "real_of_int n * r \<le> real_of_int n" by simp
  then have "round_double (real_of_int n * r) \<le> real_of_int n" by (rule round_double_le_int)
  then have "\<lfloor>round_double (real_of_int n * r)\<rfloor> \<le> n"
    by (metis floor_mono floor_of_int)
  then have "get_num_train_samples n r \<le> n"
    by (simp add: get_num_train_samples_def float_mul_def integer_floor_def)
  then have s0: "0 \<le> get_num_test_samples n r"
    by (simp add: get_num_test_samples_eq)
  from t0 assms(4) show "0 \<le> get_num_train_samples n r div b" by (simp add: pos_imp_zdiv_nonneg_iff)
  from s0 assms(4) show "0 \<le> get_num_test_samples n r div b" by (simp add: pos_imp_zdiv_nonneg_iff)
qed

text \<open>
  Claim C4, amended. Construction fails with an assertion error in exactly these cases:
  the train ratio is at least 1; a required column is missing from the loaded frame;
  or, after loading and filtering, the train batch count or the test batch count is
  not positive (zero or negative). For a train ratio of at least 0 and a batch size
  greater than 0 no count is negative, and the last case is exactly a train or test
  batch count of zero. A batch size of 0 raises a division error, not an assertion.
\<close>

theorem init_assertion_cases:
  "(init rc tts f bs r m pp = Inl AssertionError \<longleftrightarrow>
     (1 \<le> r \<or> \<not> set expected_columns \<subseteq> set (columns (rc f))
      \<or> (\<exists>ds k. load_dataset rc f m = Inr ds
            \<and> get_num_train_batches (int (length (rows ds))) r bs = Inr k \<and> k \<le> 0)
      \<or> (\<exists>ds k. load_dataset rc f m = Inr ds
            \<and> get_num_test_batches (int (length (rows ds))) r bs = Inr k \<and> k \<le> 0)))
   \<and> (0 \<le> r \<and> 0 < bs \<longrightarrow>
       (init rc tts f bs r m pp = Inl AssertionError \<longleftrightarrow>
         (1 \<le> r \<or> \<not> set expected_columns \<subseteq> set (columns (rc f))
          \<or> (\<exists>ds. load_dataset rc f m = Inr ds
                \<and> get_num_train_batches (int (length (rows ds))) r bs = Inr 0)
          \<or> (\<exists>ds. load_dataset rc f m = Inr ds
                \<and> get_num_test_batches (int (length (rows ds))) r bs = Inr 0))))"
proof (intro conjI impI)
  show "init rc tts f bs r m pp = Inl AssertionError \<longleftrightarrow>
     (1 \<le> r \<or> \<not> set expected_columns \<subseteq> set (columns (rc f))
      \<or> (\<exists>ds k. load_dataset rc f m = Inr ds
            \<and> get_num_train_batches (int (length (rows ds))) r bs = Inr k \<and> k \<le> 0)
      \<or> (\<exists>ds k. load_dataset rc f m = Inr ds
            \<and> get_num_test_batches (int (length (rows ds))) r bs = Inr k \<and> k \<le> 0))"
    by (rule init_assertion_iff)
next
  assume dom: "0 \<le> r \<and> 0 < bs"
  show "init rc tts f bs r m pp = Inl AssertionError \<longleftrightarrow>
         (1 \<le> r \<or> \<not> set expected_columns \<subseteq> set (columns (rc f))
          \<or> (\<exists>ds. load_dataset rc f m = Inr ds
                \<and> get_num_train_batches (int (length (rows ds))) r bs = Inr 0)
          \<or> (\<exists>ds. load_dataset rc f m = Inr ds
                \<and> get_num_test_batches (int (length (rows ds))) r bs = Inr 0))"
  proof (cases "r < 1")
    case False
    then show ?thesis by (simp add: init_assertion_iff)
  next
    case True
    have nz: "bs \<noteq> 0" using dom by simp
    have tr: "get_num_train_batches (int (length (rows ds))) r bs = Inr k \<and> k \<le> 0
          \<longleftrightarrow> get_num_train_batches (int (length (rows ds))) r bs = Inr 0 \<and> k = 0" for ds k
      using batch_counts_nonneg(1) [of r "int (length (rows ds))" bs] dom True
      by (auto simp: get_num_batches_div(1) [OF nz])
    have te: "get_num_test_batches (int (length (rows ds))) r bs = Inr k \<and> k \<le> 0
          \<longleftrightarrow> get_num_test_batches (int (length (rows ds))) r bs = Inr 0 \<and> k = 0" for ds k
      using batch_counts_nonneg(2) [of r "int (length (rows ds))" bs] dom True
      by (auto simp: get_num_batches_div(2) [OF nz])
    show ?thesis
      unfolding init_assertion_iff by (simp add: tr te)
  qed
qed

theorem init_assertion_cases_witness:
  "(0::real) \<le> 1/2 \<and> (0::int) < 5
   \<and> set expected_columns \<subseteq> set (columns (mock_read_csv six_row_fixture ''fake_path''))
   \<and> load_dataset (mock_read_csv six_row_fixture) ''fake_path'' 1 = Inr six_row_fixture
   \<and> get_num_train_batches (int (length (rows six_row_fixture))) (1/2) 5 = Inr 0
   \<and> init (mock_read_csv six_row_fixture) alternating_split ''fake_path'' 5 (1/2) 1
        default_preprocess_text = Inl AssertionError"
proof -
  have a: "set expected_columns \<subseteq> set (columns (mock_read_csv six_row_fixture ''fake_path''))"
    by (simp add: six_row_fixture_def expected_columns_def)
  have b: "load_dataset (mock_read_csv six_row_fixture) ''fake_path'' 1 = Inr six_row_fixture"
    by (rule load_six_row_fixture)
  have n: "int (length (rows six_row_fixture)) = 6" by (simp add: six_row_fixture_def)
  have c: "get_num_train_batches (int (length (rows six_row_fixture))) (1/2) 5 = Inr 0"
    using six_row_batches(1) [of 5] by (simp add: n)
  from b c have "\<exists>ds. load_dataset (mock_read_csv six_row_fixture) ''fake_path'' 1 = Inr ds
                \<and> get_num_train_batches (int (length (rows ds))) (1/2) 5 = Inr 0"
    by blast
  then have "init (mock_read_csv six_row_fixture) alternating_split ''fake_path'' 5 (1/2) 1
        default_preprocess_text = Inl AssertionError"
    using init_assertion_cases [of "mock_read_csv six_row_fixture" alternating_split "''fake_path''"
        5 "1/2" 1 default_preprocess_text]
    by simp
  with a b c show ?thesis by simp
qed

text \<open>
  With the train ratio \<open>-1/2\<close> and batch size 1 on the six-row frame the ratio is below
  1, the columns are present, the train batch count is \<open>-3\<close> and the test batch count
  is 9, neither of them zero, and construction fails with an assertion error.
\<close>

theorem init_assertion_counterexample:
  "init (mock_read_csv six_row_fixture) alternating_split ''fake_path'' 1 (-1/2) 1
        default_preprocess_text = Inl AssertionError
   \<and> \<not> 1 \<le> (-1/2 :: real)
   \<and> set expected_columns \<subseteq> set (columns (mock_read_csv six_row_fixture ''fake_path''))
   \<and> load_dataset (mock_read_csv six_row_fixture) ''fake_path'' 1 = Inr six_row_fixture
   \<and> get_num_train_batches (int (length (rows six_row_fixture))) (-1/2) 1 = Inr (-3)
   \<and> get_num_test_batches (int (length (rows six_row_fixture))) (-1/2) 1 = Inr 9
   \<and> Inr (-3) \<noteq> (Inr 0 :: error + int) \<and> Inr 9 \<noteq> (Inr 0 :: error + int)"
proof -
  have a: "set expected_columns \<subseteq> set (columns (mock_read_csv six_row_fixture ''fake_path''))"
    by (simp add: six_row_fixture_def expected_columns_def)
  have b: "load_dataset (mock_read_csv six_row_fixture) ''fake_path'' 1 = Inr six_row_fixture"
    by (rule load_six_row_fixture)
  have n: "int (length (rows six_row_fixture)) = 6" by (simp add: six_row_fixture_def)
  have t: "get_num_train_samples 6 (-1/2) = -3"
    by (rule get_num_train_samples_exact) simp
  have c: "get_num_train_batches (int (length (rows six_row_fixture))) (-1/2) 1 = Inr (-3)"
    using t by (simp add: n get_num_batches_div)
  have d: "get_num_test_batches (int (length (rows six_row_fixture))) (-1/2) 1 = Inr 9"
    using t by (simp add: n get_num_batches_div get_num_test_samples_eq)
  have e: "init (mock_read_csv six_row_fixture) alternating_split ''fake_path'' 1 (-1/2) 1
        default_preprocess_text = Inl AssertionError"
    using c by (simp add: init_def base_init_def b)
  from a b c d e show ?thesis by simp
qed

subsection \<open>Slices at the end of a split\<close>







lemma train_batch_returns:
  assumes "num_train_batches d = Inr N" "0 < N"
  shows "get_train_batch d = Inr (train_batch_at d (train_batch_index d),
           d\<lparr>train_batch_index := (train_batch_index d + 1) mod N\<rparr>)"
  using assms by (simp add: get_train_batch_eq)

lemma test_batch_returns:
  assumes "num_test_batches d = Inr M" "0 < M"
  shows "get_test_batch d = Inr (test_batch_at d (test_batch_index d),
           d\<lparr>test_batch_index := (test_batch_index d + 1) mod M\<rparr>)"
  using assms by (simp add: get_test_batch_eq)











subsection \<open>What the batch methods change\<close>

lemma get_train_batch_frame:
  assumes "get_train_batch d = Inr (b, d')"
  shows "d' = d\<lparr>train_batch_index := train_batch_index d'\<rparr>"
  using assms
  by (auto simp: get_train_batch_eq split: sum.splits if_splits)

lemma get_test_batch_frame:
  assumes "get_test_batch d = Inr (b, d')"
  shows "d' = d\<lparr>test_batch_index := test_batch_index d'\<rparr>"
  using assms
  by (auto simp: get_test_batch_eq split: sum.splits if_splits)

text \<open>
  Claim C10. In every state, a call of \<^verbatim>\<open>get_train_batch\<close> that returns changes only
  \<open>train_batch_index\<close>, and a call of \<^verbatim>\<open>get_test_batch\<close> that returns changes only
  \<open>test_batch_index\<close>: the other cursor, the four train and test arrays, the filtered
  dataset and the label list are the same afterwards. A call that raises returns no
  new state.
\<close>

theorem batch_methods_frame:
  "(get_train_batch d = Inr (b, d') \<longrightarrow>
      d' = d\<lparr>train_batch_index := train_batch_index d'\<rparr>
      \<and> test_batch_index d' = test_batch_index d
      \<and> x_train d' = x_train d \<and> y_train d' = y_train d
      \<and> x_test d' = x_test d \<and> y_test d' = y_test d
      \<and> dataset d' = dataset d \<and> label_list d' = label_list d
      \<and> batch_size d' = batch_size d \<and> train_ratio d' = train_ratio d)
   \<and> (get_test_batch d = Inr (b, d') \<longrightarrow>
      d' = d\<lparr>test_batch_index := test_batch_index d'\<rparr>
      \<and> train_batch_index d' = train_batch_index d
      \<and> x_train d' = x_train d \<and> y_train d' = y_train d
      \<and> x_test d' = x_test d \<and> y_test d' = y_test d
      \<and> dataset d' = dataset d \<and> label_list d' = label_list d
      \<and> batch_size d' = batch_size d \<and> train_ratio d' = train_ratio d)"
proof (intro conjI impI)
  assume a: "get_train_batch d = Inr (b, d')"
  from get_train_batch_frame [OF a] obtain i where e: "d' = d\<lparr>train_batch_index := i\<rparr>" by blast
  show "d' = d\<lparr>train_batch_index := train_batch_index d'\<rparr>" by (rule get_train_batch_frame [OF a])
  show "test_batch_index d' = test_batch_index d" "x_train d' = x_train d" "y_train d' = y_train d"
    "x_test d' = x_test d" "y_test d' = y_test d" "dataset d' = dataset d"
    "label_list d' = label_list d" "batch_size d' = batch_size d" "train_ratio d' = train_ratio d"
    by (simp_all add: e)
next
  assume a: "get_test_batch d = Inr (b, d')"
  from get_test_batch_frame [OF a] obtain i where e: "d' = d\<lparr>test_batch_index := i\<rparr>" by blast
  show "d' = d\<lparr>test_batch_index := test_batch_index d'\<rparr>" by (rule get_test_batch_frame [OF a])
  show "train_batch_index d' = train_batch_index d" "x_train d' = x_train d" "y_train d' = y_train d"
    "x_test d' = x_test d" "y_test d' = y_test d" "dataset d' = dataset d"
    "label_list d' = label_list d" "batch_size d' = batch_size d" "train_ratio d' = train_ratio d"
    by (simp_all add: e)
qed

lemma fixture_train_batch:
  "get_train_batch (fixture_dataset 1)
     = Inr (([''title_1''], [[1, 0, 0]]), (fixture_dataset 1)\<lparr>train_batch_index := 1\<rparr>)"
proof -
  have n: "num_train_batches (fixture_dataset 1) = Inr 3"
    using fixture_num_batches(1) [of 1] by simp
  have b: "train_batch_at (fixture_dataset 1) 0 = ([''title_1''], [[1, 0, 0]])"
    by (simp add: train_batch_at_def fixture_dataset_def py_slice_def)
  have i: "train_batch_index (fixture_dataset 1) = 0" by (simp add: fixture_dataset_def)
  show ?thesis using train_batch_returns [OF n] by (simp add: b i)
qed

lemma fixture_test_batch:
  "get_test_batch (fixture_dataset 1)
     = Inr (([''title_2''], [[1, 0, 0]]), (fixture_dataset 1)\<lparr>test_batch_index := 1\<rparr>)"
proof -
  have n: "num_test_batches (fixture_dataset 1) = Inr 3"
    using fixture_num_batches(2) [of 1] by simp
  have b: "test_batch_at (fixture_dataset 1) 0 = ([''title_2''], [[1, 0, 0]])"
    by (simp add: test_batch_at_def fixture_dataset_def py_slice_def)
  have i: "test_batch_index (fixture_dataset 1) = 0" by (simp add: fixture_dataset_def)
  show ?thesis using test_batch_returns [OF n] by (simp add: b i)
qed

theorem batch_methods_frame_witness:
  "get_train_batch (fixture_dataset 1)
     = Inr (([''title_1''], [[1, 0, 0]]), (fixture_dataset 1)\<lparr>train_batch_index := 1\<rparr>)
   \<and> test_batch_index ((fixture_dataset 1)\<lparr>train_batch_index := 1\<rparr>) = 0
   \<and> x_train ((fixture_dataset 1)\<lparr>train_batch_index := 1\<rparr>) = [''title_1'', ''title_3'', ''title_5'']
   \<and> get_test_batch (fixture_dataset 1)
     = Inr (([''title_2''], [[1, 0, 0]]), (fixture_dataset 1)\<lparr>test_batch_index := 1\<rparr>)
   \<and> train_batch_index ((fixture_dataset 1)\<lparr>test_batch_index := 1\<rparr>) = 0
   \<and> x_test ((fixture_dataset 1)\<lparr>test_batch_index := 1\<rparr>) = [''title_2'', ''title_4'', ''title_5'']"
  using batch_methods_frame [of "fixture_dataset 1" "([''title_1''], [[1, 0, 0]])"
      "(fixture_dataset 1)\<lparr>train_batch_index := 1\<rparr>"]
    batch_methods_frame [of "fixture_dataset 1" "([''title_2''], [[1, 0, 0]])"
      "(fixture_dataset 1)\<lparr>test_batch_index := 1\<rparr>"]
    fixture_train_batch fixture_test_batch
  by (simp add: fixture_dataset_def)

subsection \<open>The sequence wrapper\<close>

text \<open>
  Claim C8. The length of the train (test) sequence is the train (test) batch count,
  and element access at any index is the call of \<^verbatim>\<open>get_train_batch\<close>
  (\<^verbatim>\<open>get_test_batch\<close>) whatever the index. Accessing element \<open>idx1\<close> and then
  \<open>idx2\<close> yields, for all \<open>idx1\<close> and \<open>idx2\<close>, the batch at the cursor and then the
  batch at the next cursor position, and leaves the cursor two steps further.
\<close>

theorem sequence_ignores_index:
  "seq_len get_train_sequence d = num_train_batches d
   \<and> seq_len get_test_sequence d = num_test_batches d
   \<and> seq_getitem get_train_sequence idx1 d = get_train_batch d
   \<and> seq_getitem get_test_sequence idx1 d = get_test_batch d
   \<and> (num_train_batches d = Inr N \<and> 0 < N \<longrightarrow>
        (\<exists>d1 d2. seq_getitem get_train_sequence idx1 d
                     = Inr (train_batch_at d (train_batch_index d), d1)
                \<and> seq_getitem get_train_sequence idx2 d1
                     = Inr (train_batch_at d ((train_batch_index d + 1) mod N), d2)
                \<and> train_batch_index d2 = ((train_batch_index d + 1) mod N + 1) mod N))
   \<and> (num_test_batches d = Inr M \<and> 0 < M \<longrightarrow>
        (\<exists>d1 d2. seq_getitem get_test_sequence idx1 d
                     = Inr (test_batch_at d (test_batch_index d), d1)
                \<and> seq_getitem get_test_sequence idx2 d1
                     = Inr (test_batch_at d ((test_batch_index d + 1) mod M), d2)
                \<and> test_batch_index d2 = ((test_batch_index d + 1) mod M + 1) mod M))"
proof (intro conjI impI)
  show "seq_len get_train_sequence d = num_train_batches d"
    by (simp add: seq_len_def get_train_sequence_def)
  show "seq_len get_test_sequence d = num_test_batches d"
    by (simp add: seq_len_def get_test_sequence_def)
  show g1: "seq_getitem get_train_sequence idx1 d = get_train_batch d"
    by (simp add: seq_getitem_def get_train_sequence_def)
  show g2: "seq_getitem get_test_sequence idx1 d = get_test_batch d"
    by (simp add: seq_getitem_def get_test_sequence_def)
next
  assume "num_train_batches d = Inr N \<and> 0 < N"
  then have n: "num_train_batches d = Inr N" "0 < N" by simp_all
  let ?d1 = "d\<lparr>train_batch_index := (train_batch_index d + 1) mod N\<rparr>"
  have n1: "num_train_batches ?d1 = Inr N" using n by simp
  have s1: "seq_getitem get_train_sequence idx1 d = Inr (train_batch_at d (train_batch_index d), ?d1)"
    using train_batch_returns [OF n] by (simp add: seq_getitem_def get_train_sequence_def)
  have s2: "seq_getitem get_train_sequence idx2 ?d1
      = Inr (train_batch_at d ((train_batch_index d + 1) mod N),
             ?d1\<lparr>train_batch_index := ((train_batch_index d + 1) mod N + 1) mod N\<rparr>)"
    using train_batch_returns [OF n1 n(2)] by (simp add: seq_getitem_def get_train_sequence_def)
  have "train_batch_index (?d1\<lparr>train_batch_index := ((train_batch_index d + 1) mod N + 1) mod N\<rparr>)
      = ((train_batch_index d + 1) mod N + 1) mod N" by simp
  with s1 s2 show "\<exists>d1 d2. seq_getitem get_train_sequence idx1 d
                     = Inr (train_batch_at d (train_batch_index d), d1)
                \<and> seq_getitem get_train_sequence idx2 d1
                     = Inr (train_batch_at d ((train_batch_index d + 1) mod N), d2)
                \<and> train_batch_index d2 = ((train_batch_index d + 1) mod N + 1) mod N"
    by blast
next
  assume "num_test_batches d = Inr M \<and> 0 < M"
  then have n: "num_test_batches d = Inr M" "0 < M" by simp_all
  let ?d1 = "d\<lparr>test_batch_index := (test_batch_index d + 1) mod M\<rparr>"
  have n1: "num_test_batches ?d1 = Inr M" using n by simp
  have s1: "seq_getitem get_test_sequence idx1 d = Inr (test_batch_at d (test_batch_index d), ?d1)"
    using test_batch_returns [OF n] by (simp add: seq_getitem_def get_test_sequence_def)
  have s2: "seq_getitem get_test_sequence idx2 ?d1
      = Inr (test_batch_at d ((test_batch_index d + 1) mod M),
             ?d1\<lparr>test_batch_index := ((test_batch_index d + 1) mod M + 1) mod M\<rparr>)"
    using test_batch_returns [OF n1 n(2)] by (simp add: seq_getitem_def get_test_sequence_def)
  have "test_batch_index (?d1\<lparr>test_batch_index := ((test_batch_index d + 1) mod M + 1) mod M\<rparr>)
      = ((test_batch_index d + 1) mod M + 1) mod M" by simp
  with s1 s2 show "\<exists>d1 d2. seq_getitem get_test_sequence idx1 d
                     = Inr (test_batch_at d (test_batch_index d), d1)
                \<and> seq_getitem get_test_sequence idx2 d1
                     = Inr (test_batch_at d ((test_batch_index d + 1) mod M), d2)
                \<and> test_batch_index d2 = ((test_batch_index d + 1) mod M + 1) mod M"
    by blast
qed

lemma fixture_batches_at:
  "train_batch_at (fixture_dataset 1) 0 = ([''title_1''], [[1, 0, 0]])"
  "train_batch_at (fixture_dataset 1) 1 = ([''title_3''], [[0, 1, 0]])"
  "train_batch_at (fixture_dataset 1) 2 = ([''title_5''], [[0, 0, 1]])"
  "test_batch_at (fixture_dataset 1) 0 = ([''title_2''], [[1, 0, 0]])"
  "test_batch_at (fixture_dataset 1) 1 = ([''title_4''], [[0, 1, 0]])"
  "test_batch_at (fixture_dataset 1) 2 = ([''title_5''], [[0, 0, 1]])"
  by (simp_all add: train_batch_at_def test_batch_at_def fixture_dataset_def py_slice_def)

theorem sequence_ignores_index_witness:
  "num_train_batches (fixture_dataset 1) = Inr 3 \<and> num_test_batches (fixture_dataset 1) = Inr 3
   \<and> (0::int) < 3
   \<and> seq_len get_train_sequence (fixture_dataset 1) = Inr 3
   \<and> seq_len get_test_sequence (fixture_dataset 1) = Inr 3
   \<and> (\<exists>d1 d2. seq_getitem get_train_sequence 2 (fixture_dataset 1)
                  = Inr (([''title_1''], [[1, 0, 0]]), d1)
             \<and> seq_getitem get_train_sequence 0 d1 = Inr (([''title_3''], [[0, 1, 0]]), d2)
             \<and> train_batch_index d2 = 2)
   \<and> train_batch_at (fixture_dataset 1) 2 = ([''title_5''], [[0, 0, 1]])
   \<and> (\<exists>d1 d2. seq_getitem get_test_sequence 2 (fixture_dataset 1)
                  = Inr (([''title_2''], [[1, 0, 0]]), d1)
             \<and> seq_getitem get_test_sequence 0 d1 = Inr (([''title_4''], [[0, 1, 0]]), d2)
             \<and> test_batch_index d2 = 2)
   \<and> test_batch_at (fixture_dataset 1) 2 = ([''title_5''], [[0, 0, 1]])"
proof -
  have n: "num_train_batches (fixture_dataset 1) = Inr 3" "num_test_batches (fixture_dataset 1) = Inr 3"
    using fixture_num_batches [of 1] by simp_all
  have i: "train_batch_index (fixture_dataset 1) = 0" "test_batch_index (fixture_dataset 1) = 0"
    by (simp_all add: fixture_dataset_def)
  note w = sequence_ignores_index [where d = "fixture_dataset 1" and ?idx1.0 = 2 and ?idx2.0 = 0
      and N = 3 and M = 3]
  note w1 = w [THEN conjunct1]
  note w2 = w [THEN conjunct2, THEN conjunct1]
  note w5 = w [THEN conjunct2, THEN conjunct2, THEN conjunct2, THEN conjunct2, THEN conjunct1]
  note w6 = w [THEN conjunct2, THEN conjunct2, THEN conjunct2, THEN conjunct2, THEN conjunct2]
  from w1 w2 have l: "seq_len get_train_sequence (fixture_dataset 1) = Inr 3"
    "seq_len get_test_sequence (fixture_dataset 1) = Inr 3"
    by (simp_all add: n)
  from w5 n have tr: "\<exists>d1 d2. seq_getitem get_train_sequence 2 (fixture_dataset 1)
                  = Inr (([''title_1''], [[1, 0, 0]]), d1)
             \<and> seq_getitem get_train_sequence 0 d1 = Inr (([''title_3''], [[0, 1, 0]]), d2)
             \<and> train_batch_index d2 = 2"
    by (simp add: i fixture_batches_at)
  from w6 n have te: "\<exists>d1 d2. seq_getitem get_test_sequence 2 (fixture_dataset 1)
                  = Inr (([''title_2''], [[1, 0, 0]]), d1)
             \<and> seq_getitem get_test_sequence 0 d1 = Inr (([''title_4''], [[0, 1, 0]]), d2)
             \<and> test_batch_index d2 = 2"
    by (simp add: i fixture_batches_at)
  from n l tr te fixture_batches_at(3,6) show ?thesis by simp
qed

end
